theory Spec2Isabelle
  imports Main "HOL-Library.Option_ord" "HOL-Library.Signed_Division"
begin

section \<open>The metadata database of wimms (\<^verbatim>\<open>wimms/sql.py\<close>)\<close>

text \<open>
  \<^verbatim>\<open>SQLMetadata\<close> keeps three tables in a relational store: \<^verbatim>\<open>nodes\<close> (the nodes of
  each service with their load), \<^verbatim>\<open>user_nodes\<close> (the node and uid of each user of a
  service, with the terms-of-service flag) and \<^verbatim>\<open>metadata\<close> (key/value pairs of a
  service). Every method sends SQL statements through \<^verbatim>\<open>_safe_execute\<close>.

  The embedding passes the store explicitly: a method takes the store and returns its
  outcome together with the store it leaves behind, also when it raises, since what was
  written before the raise stays written. A table is the list of its rows in storage
  order. Integers are Python's and SQL's integers, taken unbounded; text columns are
  compared by equality.
\<close>

subsection \<open>Rows and the store\<close>

record node_row =
  nd_service :: string
  nd_node :: string
  available :: int
  current_load :: int
  capacity :: int
  downed :: int
  backoff :: int

record user_node_row =
  un_uid :: int
  un_service :: string
  un_email :: string
  un_node :: string
  tos_signed :: int

record metadata_row =
  md_service :: string
  md_name :: string
  md_value :: string

text \<open>
  The exceptions of the storage engine that matter here. \<^verbatim>\<open>_safe_execute\<close> names the
  first two in its \<^verbatim>\<open>except\<close> clause; the third is what the engine raises when an
  insert violates a unique constraint. Each carries its message, which is what
  \<^verbatim>\<open>str(exc)\<close> gives.
\<close>

datatype storage_exc =
  OperationalError string
| TimeoutError string
| IntegrityError string

text \<open>
  What a caller of \<^verbatim>\<open>SQLMetadata\<close> can see raised: \<^verbatim>\<open>BackendError\<close> with its message,
  or an exception of the storage engine that no handler caught.
\<close>

datatype exn =
  BackendError string
| Uncaught storage_exc

text \<open>
  The store. \<open>next_uid\<close> is the counter behind the auto-incremented \<^verbatim>\<open>uid\<close> column.
  \<open>faults\<close> is the behaviour of the connection in the calls to come: the engine consumes
  one entry at each \<^verbatim>\<open>execute\<close>, and raises the exception the entry holds, if any; once
  the list is empty the connection is healthy for good.
\<close>

record db =
  nodes :: "node_row list"
  user_nodes :: "user_node_row list"
  metadata :: "metadata_row list"
  next_uid :: int
  faults :: "storage_exc option list"

subsection \<open>The statements and the engine\<close>

text \<open>
  A statement is a function from the store to an exception of the engine or a result set
  with the new store. \<^verbatim>\<open>engine.execute\<close> first consults the connection; a statement
  that raises writes nothing.
\<close>

definition engine_execute ::
  "(db \<Rightarrow> storage_exc + 'a \<times> db) \<Rightarrow> db \<Rightarrow> (storage_exc + 'a) \<times> db" where
  "engine_execute stmt d =
     (case faults d of
        Some e # rest \<Rightarrow> (Inl e, d\<lparr>faults := rest\<rparr>)
      | _ \<Rightarrow>
         (let d0 = d\<lparr>faults := tl (faults d)\<rparr> in
          case stmt d0 of
            Inl e \<Rightarrow> (Inl e, d0)
          | Inr (r, d1) \<Rightarrow> (Inr r, d1)))"

text \<open>
  \<^verbatim>\<open>_safe_execute\<close>: the \<^verbatim>\<open>except (OperationalError, TimeoutError)\<close> clause turns these
  two into \<^verbatim>\<open>BackendError(str(exc))\<close>; any other exception leaves the method as it is.
  There is one engine, so the lookup of the engine is not modelled, nor is the log.
\<close>

definition safe_execute ::
  "(db \<Rightarrow> storage_exc + 'a \<times> db) \<Rightarrow> db \<Rightarrow> (exn + 'a) \<times> db" where
  "safe_execute stmt d =
     (case engine_execute stmt d of
        (Inr r, d') \<Rightarrow> (Inr r, d')
      | (Inl (OperationalError m), d') \<Rightarrow> (Inl (BackendError m), d')
      | (Inl (TimeoutError m), d') \<Rightarrow> (Inl (BackendError m), d')
      | (Inl (IntegrityError m), d') \<Rightarrow> (Inl (Uncaught (IntegrityError m)), d'))"

definition fetchone :: "'a list \<Rightarrow> 'a option" where
  "fetchone rows = (case rows of [] \<Rightarrow> None | r # _ \<Rightarrow> Some r)"

text \<open>\<^verbatim>\<open>_GET\<close>: the rows of \<^verbatim>\<open>user_nodes\<close> with this email and service.\<close>

definition GET :: "string \<Rightarrow> string \<Rightarrow> db \<Rightarrow> storage_exc + user_node_row list \<times> db" where
  "GET email service d =
     Inr (filter (\<lambda>r. un_email r = email \<and> un_service r = service) (user_nodes d), d)"

text \<open>
  Modelled from the spec: the table declarations (\<^verbatim>\<open>wimms.schemas\<close>) are not part of the
  sources. The spec gives \<^verbatim>\<open>(email, service)\<close> and \<^verbatim>\<open>(service, name)\<close> as identities
  held by unique constraints of the store, and the uid as assigned by the store at
  creation. \<^verbatim>\<open>_INSERT\<close> returns \<^verbatim>\<open>lastrowid\<close>, the uid of the new row.
\<close>

definition INSERT ::
  "string \<Rightarrow> string \<Rightarrow> string \<Rightarrow> int \<Rightarrow> db \<Rightarrow> storage_exc + int \<times> db" where
  "INSERT service email node tos d =
     (if filter (\<lambda>r. un_email r = email \<and> un_service r = service) (user_nodes d) \<noteq> []
      then Inl (IntegrityError ''user_nodes'')
      else Inr (next_uid d,
             d\<lparr>user_nodes := user_nodes d @
                  [\<lparr>un_uid = next_uid d, un_service = service, un_email = email,
                    un_node = node, tos_signed = tos\<rparr>],
               next_uid := next_uid d + 1\<rparr>))"

definition INSERT_METADATA ::
  "string \<Rightarrow> string \<Rightarrow> string \<Rightarrow> db \<Rightarrow> storage_exc + unit \<times> db" where
  "INSERT_METADATA service name val d =
     (if filter (\<lambda>r. md_service r = service \<and> md_name r = name) (metadata d) \<noteq> []
      then Inl (IntegrityError ''metadata'')
      else Inr ((),
             d\<lparr>metadata := metadata d @
                  [\<lparr>md_service = service, md_name = name, md_value = val\<rparr>]\<rparr>))"

definition UPDATE_METADATA ::
  "string \<Rightarrow> string \<Rightarrow> string \<Rightarrow> db \<Rightarrow> storage_exc + unit \<times> db" where
  "UPDATE_METADATA service name val d =
     Inr ((),
       d\<lparr>metadata :=
            map (\<lambda>r. if md_name r = name \<and> md_service r = service
                      then r\<lparr>md_value := val\<rparr> else r) (metadata d)\<rparr>)"

text \<open>The query of \<^verbatim>\<open>get_metadata\<close>: the service, and the name when one is given.\<close>

definition metadata_query ::
  "string \<Rightarrow> string option \<Rightarrow> db \<Rightarrow> storage_exc + metadata_row list \<times> db" where
  "metadata_query service name d =
     Inr (filter (\<lambda>r. md_service r = service \<and>
                       (case name of None \<Rightarrow> True | Some n \<Rightarrow> md_name r = n))
            (metadata d), d)"

text \<open>
  The \<^verbatim>\<open>where\<close> list of \<^verbatim>\<open>get_best_node\<close>: the service, \<^verbatim>\<open>available > 0\<close>,
  \<^verbatim>\<open>capacity > current_load\<close>, \<^verbatim>\<open>downed == 0\<close>.
\<close>

definition eligible :: "string \<Rightarrow> node_row \<Rightarrow> bool" where
  "eligible service r \<longleftrightarrow>
     nd_service r = service \<and> available r > 0 \<and>
     capacity r > current_load r \<and> downed r = 0"

text \<open>
  The select of \<^verbatim>\<open>get_best_node\<close>, ordered by \<^verbatim>\<open>current_load / capacity\<close> and limited to
  one row. The quotient is computed by the storage engine, not by Python, and engines
  differ on it (a decimal quotient, or an integer one), so the engine's quotient is the
  parameter \<open>ratio\<close>, into any linear order. Rows of equal rank stay in storage order.
\<close>

definition best_node_query ::
  "(int \<Rightarrow> int \<Rightarrow> 'k::linorder) \<Rightarrow> string \<Rightarrow> db \<Rightarrow> storage_exc + node_row list \<times> db" where
  "best_node_query ratio service d =
     Inr (take 1 (sort_key (\<lambda>r. ratio (current_load r) (capacity r))
                    (filter (eligible service) (nodes d))), d)"

text \<open>
  The quotient of SQLite, the engine \<^verbatim>\<open>__init__\<close> provides for with the driver
  \<^verbatim>\<open>pysqlite\<close>: on integer columns it is the integer quotient, truncated towards zero,
  and \<^verbatim>\<open>NULL\<close> when the capacity is 0; \<^verbatim>\<open>NULL\<close> (here \<open>None\<close>) sorts before every number.
\<close>

definition sqlite_ratio :: "int \<Rightarrow> int \<Rightarrow> int option" where
  "sqlite_ratio l c = (if c = 0 then None else Some (l sdiv c))"

text \<open>
  The update of \<^verbatim>\<open>get_best_node\<close>: its \<^verbatim>\<open>where\<close> is the service and the node, its fields
  \<^verbatim>\<open>available - 1\<close> and \<^verbatim>\<open>current_load + 1\<close>.
\<close>

definition claim_row :: "node_row \<Rightarrow> node_row" where
  "claim_row r = r\<lparr>available := available r - 1, current_load := current_load r + 1\<rparr>"

definition claim_update :: "string \<Rightarrow> string \<Rightarrow> db \<Rightarrow> storage_exc + unit \<times> db" where
  "claim_update service node d =
     Inr ((),
       d\<lparr>nodes :=
            map (\<lambda>r. if nd_service r = service \<and> nd_node r = node
                      then claim_row r else r) (nodes d)\<rparr>)"

text \<open>The update of \<^verbatim>\<open>set_tos_flag\<close>: the service, and the email when one is given.\<close>

definition tos_flag_update ::
  "string \<Rightarrow> int \<Rightarrow> string option \<Rightarrow> db \<Rightarrow> storage_exc + unit \<times> db" where
  "tos_flag_update service val email d =
     Inr ((),
       d\<lparr>user_nodes :=
            map (\<lambda>r. if un_service r = service \<and>
                         (case email of None \<Rightarrow> True | Some e \<Rightarrow> un_email r = e)
                      then r\<lparr>tos_signed := val\<rparr> else r) (user_nodes d)\<rparr>)"

subsection \<open>The methods of \<^verbatim>\<open>SQLMetadata\<close>\<close>

definition set_metadata :: "db \<Rightarrow> string \<Rightarrow> string \<Rightarrow> string \<Rightarrow> (exn + unit) \<times> db" where
  "set_metadata d service name val = safe_execute (INSERT_METADATA service name val) d"

definition update_metadata :: "db \<Rightarrow> string \<Rightarrow> string \<Rightarrow> string \<Rightarrow> (exn + unit) \<times> db" where
  "update_metadata d service name val = safe_execute (UPDATE_METADATA service name val) d"

text \<open>
  \<^verbatim>\<open>get_metadata\<close> returns a value or \<^verbatim>\<open>None\<close> when a name is given and all the rows
  otherwise; the two uses have different result types and are two functions here.
\<close>

definition get_metadata :: "db \<Rightarrow> string \<Rightarrow> string \<Rightarrow> (exn + string option) \<times> db" where
  "get_metadata d service name =
     (case safe_execute (metadata_query service (Some name)) d of
        (Inl e, d1) \<Rightarrow> (Inl e, d1)
      | (Inr res, d1) \<Rightarrow>
         (case fetchone res of
            Some one \<Rightarrow> (Inr (Some (md_value one)), d1)
          | None \<Rightarrow> (Inr None, d1)))"

definition get_metadata_all :: "db \<Rightarrow> string \<Rightarrow> (exn + metadata_row list) \<times> db" where
  "get_metadata_all d service =
     (case safe_execute (metadata_query service None) d of
        (Inl e, d1) \<Rightarrow> (Inl e, d1)
      | (Inr res, d1) \<Rightarrow> (Inr res, d1))"

definition get_node ::
  "db \<Rightarrow> string \<Rightarrow> string \<Rightarrow> (exn + int option \<times> string option \<times> string option) \<times> db" where
  "get_node d email service =
     (case safe_execute (GET email service) d of
        (Inl e, d1) \<Rightarrow> (Inl e, d1)
      | (Inr res, d1) \<Rightarrow>
         (let one = fetchone res in
          case (if one = None \<or> map_option tos_signed one = Some 1
                then get_metadata d1 service ''terms-of-service''
                else (Inr None, d1)) of
            (Inl e, d2) \<Rightarrow> (Inl e, d2)
          | (Inr tos, d2) \<Rightarrow>
             (case one of
                None \<Rightarrow> (Inr (None, None, tos), d2)
              | Some r \<Rightarrow> (Inr (Some (un_uid r), Some (un_node r), tos), d2))))"

definition get_best_node ::
  "(int \<Rightarrow> int \<Rightarrow> 'k::linorder) \<Rightarrow> db \<Rightarrow> string \<Rightarrow> (exn + string) \<times> db" where
  "get_best_node ratio d service =
     (case safe_execute (best_node_query ratio service) d of
        (Inl e, d1) \<Rightarrow> (Inl e, d1)
      | (Inr res, d1) \<Rightarrow>
         (case fetchone res of
            None \<Rightarrow> (Inl (BackendError ''unable to get a node''), d1)
          | Some one \<Rightarrow>
             (case safe_execute (claim_update service (nd_node one)) d1 of
                (Inl e, d2) \<Rightarrow> (Inl e, d2)
              | (Inr u, d2) \<Rightarrow> (Inr (nd_node one), d2))))"

definition allocate_node ::
  "(int \<Rightarrow> int \<Rightarrow> 'k::linorder) \<Rightarrow> db \<Rightarrow> string \<Rightarrow> string \<Rightarrow> (exn + int \<times> string) \<times> db" where
  "allocate_node ratio d email service =
     (case get_node d email service of
        (Inl e, d1) \<Rightarrow> (Inl e, d1)
      | (Inr (uid, node, tos), d1) \<Rightarrow>
         (if (uid, node) \<noteq> (None, None)
          then (Inl (BackendError ''Node already assigned''), d1)
          else
            (case get_best_node ratio d1 service of
               (Inl e, d2) \<Rightarrow> (Inl e, d2)
             | (Inr best, d2) \<Rightarrow>
                (case safe_execute (INSERT service email best 1) d2 of
                   (Inl e, d3) \<Rightarrow> (Inl e, d3)
                 | (Inr lastrowid, d3) \<Rightarrow> (Inr (lastrowid, best), d3)))))"

definition set_tos_flag ::
  "db \<Rightarrow> string \<Rightarrow> int \<Rightarrow> string option \<Rightarrow> (exn + unit) \<times> db" where
  "set_tos_flag d service val email = safe_execute (tos_flag_update service val email) d"

definition set_tos :: "db \<Rightarrow> string \<Rightarrow> string \<Rightarrow> (exn + unit) \<times> db" where
  "set_tos d service val =
     (case update_metadata d service ''terms-of-service'' val of
        (Inl e, d1) \<Rightarrow> (Inl e, d1)
      | (Inr u, d1) \<Rightarrow> set_tos_flag d1 service 0 None)"

subsection \<open>Stores used as concrete inputs\<close>

definition node_A :: node_row where
  "node_A = \<lparr>nd_service = ''sync'', nd_node = ''https://a.example'', available = 5,
             current_load = 2, capacity = 10, downed = 0, backoff = 0\<rparr>"

definition node_B :: node_row where
  "node_B = \<lparr>nd_service = ''sync'', nd_node = ''https://b.example'', available = 2,
             current_load = 8, capacity = 10, downed = 0, backoff = 0\<rparr>"

definition tos_row :: metadata_row where
  "tos_row = \<lparr>md_service = ''sync'', md_name = ''terms-of-service'',
              md_value = ''https://tos.example/1''\<rparr>"

definition fresh_store :: db where
  "fresh_store = \<lparr>nodes = [node_B, node_A], user_nodes = [], metadata = [tos_row],
                  next_uid = 1, faults = []\<rparr>"

definition signed_user :: user_node_row where
  "signed_user = \<lparr>un_uid = 7, un_service = ''sync'', un_email = ''u@x'',
                  un_node = ''https://a.example'', tos_signed = 0\<rparr>"

definition flagged_user :: user_node_row where
  "flagged_user = \<lparr>un_uid = 8, un_service = ''sync'', un_email = ''v@x'',
                   un_node = ''https://b.example'', tos_signed = 1\<rparr>"

definition signed_store :: db where
  "signed_store = \<lparr>nodes = [node_B, node_A], user_nodes = [signed_user, flagged_user],
                   metadata = [tos_row], next_uid = 9, faults = []\<rparr>"

definition last_slot :: node_row where
  "last_slot = \<lparr>nd_service = ''sync'', nd_node = ''https://c.example'', available = 1,
                current_load = 9, capacity = 10, downed = 0, backoff = 0\<rparr>"

definition last_slot_store :: db where
  "last_slot_store = \<lparr>nodes = [last_slot], user_nodes = [], metadata = [],
                      next_uid = 1, faults = []\<rparr>"

text \<open>
  \<open>fresh_store\<close> after \<^verbatim>\<open>allocate_node("u@x", "sync")\<close> on SQLite: the slot is taken on
  \<open>node_B\<close>.
\<close>

definition allocated_store :: db where
  "allocated_store =
     \<lparr>nodes = [node_B\<lparr>available := 1, current_load := 9\<rparr>, node_A],
      user_nodes = [\<lparr>un_uid = 1, un_service = ''sync'', un_email = ''u@x'',
                     un_node = ''https://b.example'', tos_signed = 1\<rparr>],
      metadata = [tos_row], next_uid = 2, faults = []\<rparr>"

text \<open>A store whose next \<^verbatim>\<open>execute\<close> times out.\<close>

definition flaky_store :: db where
  "flaky_store = fresh_store\<lparr>faults := [Some (TimeoutError ''timed out'')]\<rparr>"

section \<open>Properties\<close>

subsection \<open>A healthy connection\<close>

lemma healthy_faults: "faults d = [] \<Longrightarrow> d\<lparr>faults := []\<rparr> = d"
  by (cases d) simp

lemma fetchone_filter: "fetchone (filter P xs) = find P xs"
  by (induction xs) (simp_all add: fetchone_def)

lemma safe_execute_ok:
  "faults d = [] \<Longrightarrow> stmt d = Inr (r, d1) \<Longrightarrow> safe_execute stmt d = (Inr r, d1)"
  by (simp add: safe_execute_def engine_execute_def healthy_faults)

lemma safe_execute_integrity:
  "faults d = [] \<Longrightarrow> stmt d = Inl (IntegrityError m) \<Longrightarrow>
   safe_execute stmt d = (Inl (Uncaught (IntegrityError m)), d)"
  by (simp add: safe_execute_def engine_execute_def healthy_faults)

lemma map_if_absent:
  "filter P xs = [] \<Longrightarrow> map (\<lambda>r. if P r then f r else r) xs = xs"
  by (induction xs) (auto split: if_splits)

lemma find_app:
  "find P (xs @ ys) = (case find P xs of None \<Rightarrow> find P ys | Some x \<Rightarrow> Some x)"
  by (induction xs) simp_all

lemma get_metadata_healthy:
  assumes "faults d = []"
  shows "get_metadata d service name =
    (Inr (map_option md_value
            (find (\<lambda>r. md_service r = service \<and> md_name r = name) (metadata d))), d)"
proof -
  have "safe_execute (metadata_query service (Some name)) d =
      (Inr (filter (\<lambda>r. md_service r = service \<and> md_name r = name) (metadata d)), d)"
    using assms by (intro safe_execute_ok) (simp_all add: metadata_query_def)
  then show ?thesis
    by (simp add: get_metadata_def fetchone_filter split: option.split)
qed

lemma safe_execute_result:
  assumes "safe_execute stmt d = (res, d')"
  obtains (raised) e where "res = Inl e" and "d' = d\<lparr>faults := tl (faults d)\<rparr>"
    | (returned) r where "res = Inr r" and "stmt (d\<lparr>faults := tl (faults d)\<rparr>) = Inr (r, d')"
  using assms
  by (auto simp: safe_execute_def engine_execute_def Let_def
      split: list.splits option.splits sum.splits storage_exc.splits prod.splits)

lemma fetchone_take_sort:
  assumes "fetchone (take 1 (sort_key k (filter P xs))) = Some r"
  shows "r \<in> set xs \<and> P r"
proof -
  have "r \<in> set (take 1 (sort_key k (filter P xs)))"
    using assms by (auto simp: fetchone_def split: list.splits)
  then have "r \<in> set (sort_key k (filter P xs))"
    by (rule in_set_takeD)
  then show ?thesis by simp
qed

lemma same_identity:
  assumes "distinct (map (\<lambda>r. (nd_service r, nd_node r)) rows)"
    and "x \<in> set rows" and "y \<in> set rows"
    and "nd_service x = nd_service y" and "nd_node x = nd_node y"
  shows "x = y"
proof -
  have "inj_on (\<lambda>r. (nd_service r, nd_node r)) (set rows)"
    using assms(1) by (simp add: distinct_map)
  then show ?thesis
    using assms(2-5) by (auto dest: inj_onD)
qed

lemma get_node_absent:
  assumes "faults d = []"
    and "filter (\<lambda>r. un_email r = email \<and> un_service r = service) (user_nodes d) = []"
  shows "get_node d email service =
    (Inr (None, None,
       map_option md_value
         (find (\<lambda>r. md_service r = service \<and> md_name r = ''terms-of-service'')
            (metadata d))), d)"
proof -
  have "safe_execute (GET email service) d = (Inr [], d)"
    using assms by (intro safe_execute_ok) (simp_all add: GET_def)
  then show ?thesis
    using get_metadata_healthy [OF assms(1)]
    by (simp add: get_node_def fetchone_def)
qed

lemma get_node_present:
  assumes "faults d = []"
    and "filter (\<lambda>r. un_email r = email \<and> un_service r = service) (user_nodes d) = r # rs"
  shows "get_node d email service =
    (Inr (Some (un_uid r), Some (un_node r),
       if tos_signed r = 1
       then map_option md_value
         (find (\<lambda>r. md_service r = service \<and> md_name r = ''terms-of-service'')
            (metadata d))
       else None), d)"
proof -
  have "safe_execute (GET email service) d = (Inr (r # rs), d)"
    using assms by (intro safe_execute_ok) (simp_all add: GET_def)
  then show ?thesis
    using get_metadata_healthy [OF assms(1)]
    by (simp add: get_node_def fetchone_def)
qed

lemma get_best_node_healthy:
  assumes "faults d = []"
    and "take 1 (sort_key (\<lambda>r. ratio (current_load r) (capacity r))
                   (filter (eligible service) (nodes d))) = [one]"
  shows "get_best_node ratio d service =
    (Inr (nd_node one),
     d\<lparr>nodes := map (\<lambda>r. if nd_service r = service \<and> nd_node r = nd_node one
                          then claim_row r else r) (nodes d)\<rparr>)"
proof -
  have "safe_execute (best_node_query ratio service) d = (Inr [one], d)"
    using assms by (intro safe_execute_ok) (simp_all add: best_node_query_def)
  moreover have "safe_execute (claim_update service (nd_node one)) d =
    (Inr (), d\<lparr>nodes := map (\<lambda>r. if nd_service r = service \<and> nd_node r = nd_node one
                          then claim_row r else r) (nodes d)\<rparr>)"
    using assms(1) by (intro safe_execute_ok) (simp_all add: claim_update_def)
  ultimately show ?thesis
    by (simp add: get_best_node_def fetchone_def)
qed

lemma get_best_node_none:
  assumes "faults d = []" and "filter (eligible service) (nodes d) = []"
  shows "get_best_node ratio d service = (Inl (BackendError ''unable to get a node''), d)"
proof -
  have "safe_execute (best_node_query ratio service) d = (Inr [], d)"
    using assms by (intro safe_execute_ok) (simp_all add: best_node_query_def)
  then show ?thesis
    by (simp add: get_best_node_def fetchone_def)
qed

lemma allocate_node_assigned:
  assumes "faults d = []"
    and "filter (\<lambda>r. un_email r = email \<and> un_service r = service) (user_nodes d) \<noteq> []"
  shows "allocate_node ratio d email service =
           (Inl (BackendError ''Node already assigned''), d)"
proof -
  obtain r rs where
    "filter (\<lambda>r. un_email r = email \<and> un_service r = service) (user_nodes d) = r # rs"
    using assms(2) by (cases "filter (\<lambda>r. un_email r = email \<and> un_service r = service) (user_nodes d)") auto
  from get_node_present [OF assms(1) this] show ?thesis
    by (simp add: allocate_node_def)
qed

lemma connection_failure:
  assumes "faults d = Some e # rest" and "e = OperationalError m \<or> e = TimeoutError m"
  shows "safe_execute stmt d = (Inl (BackendError m), d\<lparr>faults := rest\<rparr>)"
  using assms by (auto simp: safe_execute_def engine_execute_def)

lemma allocate_node_success:
  assumes "allocate_node ratio d email service = (Inr (uid, node), d1)"
  shows "\<exists>d0. safe_execute (INSERT service email node 1) d0 = (Inr uid, d1)"
  using assms
  by (auto simp: allocate_node_def split: prod.splits sum.splits if_splits)

lemma insert_success:
  assumes "safe_execute (INSERT service email node tos) d0 = (Inr uid, d1)"
  shows "filter (\<lambda>r. un_email r = email \<and> un_service r = service) (user_nodes d1) =
           [\<lparr>un_uid = uid, un_service = service, un_email = email,
             un_node = node, tos_signed = tos\<rparr>]"
  using assms
proof (cases rule: safe_execute_result)
  case (raised e)
  then show ?thesis by simp
next
  case (returned r)
  then show ?thesis
    by (auto simp: INSERT_def split: if_splits)
qed

lemma allocate_node_healthy:
  assumes h: "faults d = []"
    and absent: "filter (\<lambda>r. un_email r = email \<and> un_service r = service) (user_nodes d) = []"
    and best: "take 1 (sort_key (\<lambda>r. ratio (current_load r) (capacity r))
                   (filter (eligible service) (nodes d))) = [one]"
  shows "allocate_node ratio d email service =
    (Inr (next_uid d, nd_node one),
     d\<lparr>nodes := map (\<lambda>r. if nd_service r = service \<and> nd_node r = nd_node one
                          then claim_row r else r) (nodes d),
       user_nodes := user_nodes d @
         [\<lparr>un_uid = next_uid d, un_service = service, un_email = email,
           un_node = nd_node one, tos_signed = 1\<rparr>],
       next_uid := next_uid d + 1\<rparr>)"
proof -
  define d2 where "d2 = d\<lparr>nodes := map (\<lambda>r. if nd_service r = service \<and> nd_node r = nd_node one
                          then claim_row r else r) (nodes d)\<rparr>"
  define d3 where "d3 = d2\<lparr>user_nodes := user_nodes d2 @
         [\<lparr>un_uid = next_uid d2, un_service = service, un_email = email,
           un_node = nd_node one, tos_signed = 1\<rparr>],
       next_uid := next_uid d2 + 1\<rparr>"
  have g: "get_best_node ratio d service = (Inr (nd_node one), d2)"
    unfolding d2_def using h best by (rule get_best_node_healthy)
  have "faults d2 = []" using h by (simp add: d2_def)
  moreover have "INSERT service email (nd_node one) 1 d2 = Inr (next_uid d2, d3)"
    using absent by (simp add: INSERT_def d3_def d2_def)
  ultimately have
    ins: "safe_execute (INSERT service email (nd_node one) 1) d2 = (Inr (next_uid d2), d3)"
    by (rule safe_execute_ok)
  have "allocate_node ratio d email service = (Inr (next_uid d2, nd_node one), d3)"
    using get_node_absent [OF h absent] g ins by (simp add: allocate_node_def)
  then show ?thesis by (simp add: d3_def d2_def)
qed

lemma take1_nonempty: "xs \<noteq> [] \<Longrightarrow> \<exists>x. take 1 xs = [x]"
  by (cases xs) simp_all

lemma filter_map_stable:
  "(\<And>r. P (h r) = P r) \<Longrightarrow> filter P (map h xs) = map h (filter P xs)"
  by (induction xs) simp_all

lemma set_tos_flag_row:
  assumes h: "faults d = []"
    and row: "filter (\<lambda>r. un_email r = email \<and> un_service r = service) (user_nodes d) = [u]"
  shows "\<exists>d'. set_tos_flag d service v (Some email) = (Inr (), d') \<and> faults d' = [] \<and>
           metadata d' = metadata d \<and>
           filter (\<lambda>r. un_email r = email \<and> un_service r = service) (user_nodes d') =
             [u\<lparr>tos_signed := v\<rparr>]"
proof -
  define f where "f = (\<lambda>r::user_node_row. if un_service r = service \<and> un_email r = email
                                           then r\<lparr>tos_signed := v\<rparr> else r)"
  define d' where "d' = d\<lparr>user_nodes := map f (user_nodes d)\<rparr>"
  have "tos_flag_update service v (Some email) d = Inr ((), d')"
    by (simp add: tos_flag_update_def d'_def f_def)
  with h have s: "set_tos_flag d service v (Some email) = (Inr (), d')"
    unfolding set_tos_flag_def by (rule safe_execute_ok)
  have "u \<in> set (filter (\<lambda>r. un_email r = email \<and> un_service r = service) (user_nodes d))"
    unfolding row by simp
  then have u: "un_email u = email" "un_service u = service" by simp_all
  have "filter (\<lambda>r. un_email r = email \<and> un_service r = service) (map f (user_nodes d)) =
        map f (filter (\<lambda>r. un_email r = email \<and> un_service r = service) (user_nodes d))"
    by (rule filter_map_stable) (simp add: f_def)
  also have "\<dots> = [u\<lparr>tos_signed := v\<rparr>]"
    unfolding row using u by (simp add: f_def)
  finally show ?thesis
    using s h by (simp add: d'_def)
qed

text \<open>The definitions to unfold when a method is run on a concrete store.\<close>

lemmas run_defs =
  safe_execute_def engine_execute_def fetchone_def GET_def INSERT_def INSERT_METADATA_def
  UPDATE_METADATA_def metadata_query_def eligible_def best_node_query_def claim_row_def
  claim_update_def tos_flag_update_def set_metadata_def update_metadata_def
  get_metadata_def get_node_def get_best_node_def allocate_node_def set_tos_flag_def
  set_tos_def

lemma fresh_store_allocation:
  "allocate_node sqlite_ratio fresh_store ''u@x'' ''sync'' =
     (Inr (1, ''https://b.example''), allocated_store)"
  by (simp add: run_defs fresh_store_def allocated_store_def node_A_def node_B_def
      tos_row_def sqlite_ratio_def signed_divide_int_def)

subsection \<open>The metadata store\<close>

text \<open>
  Claim C8. When the connection is healthy and the metadata table has no row for
  \<open>(service, name)\<close>, \<^verbatim>\<open>update_metadata(service, name, value)\<close> returns normally and
  leaves the whole store, hence every metadata row, as it was.
\<close>

theorem update_metadata_absent_noop:
  assumes "faults d = []"
    and "filter (\<lambda>r. md_name r = name \<and> md_service r = service) (metadata d) = []"
  shows "update_metadata d service name val = (Inr (), d)"
proof -
  have "map (\<lambda>r. if md_name r = name \<and> md_service r = service
                   then r\<lparr>md_value := val\<rparr> else r) (metadata d) = metadata d"
    using assms(2) by (rule map_if_absent)
  then have "UPDATE_METADATA service name val d = Inr ((), d)"
    by (simp add: UPDATE_METADATA_def)
  with assms(1) show ?thesis
    unfolding update_metadata_def by (rule safe_execute_ok)
qed

theorem update_metadata_absent_noop_witness:
  "update_metadata fresh_store ''sync'' ''x'' ''2'' = (Inr (), fresh_store)"
  using update_metadata_absent_noop [of fresh_store "''x''" "''sync''" "''2''"]
  by (simp add: fresh_store_def tos_row_def)

text \<open>
  Claim C7. Round trip: from a store with a healthy connection and no row for
  \<open>(s, ''x'')\<close>, \<^verbatim>\<open>set_metadata(s, "x", "1")\<close>, then \<^verbatim>\<open>update_metadata(s, "x", "2")\<close>, then
  \<^verbatim>\<open>get_metadata(s, "x")\<close> all return normally and the last returns \<^verbatim>\<open>"2"\<close>.
\<close>

theorem metadata_round_trip:
  assumes "faults d = []"
    and "filter (\<lambda>r. md_service r = s \<and> md_name r = ''x'') (metadata d) = []"
  shows "\<exists>d1 d2. set_metadata d s ''x'' ''1'' = (Inr (), d1) \<and>
           update_metadata d1 s ''x'' ''2'' = (Inr (), d2) \<and>
           get_metadata d2 s ''x'' = (Inr (Some ''2''), d2)"
proof -
  define row where "row = \<lparr>md_service = s, md_name = ''x'', md_value = ''1''\<rparr>"
  define d1 where "d1 = d\<lparr>metadata := metadata d @ [row]\<rparr>"
  define upd where "upd = (\<lambda>r::metadata_row. if md_name r = ''x'' \<and> md_service r = s
                                then r\<lparr>md_value := ''2''\<rparr> else r)"
  define d2 where "d2 = d1\<lparr>metadata := map upd (metadata d1)\<rparr>"
  have h1: "faults d1 = []" and h2: "faults d2 = []"
    using assms(1) by (simp_all add: d1_def d2_def)
  have "INSERT_METADATA s ''x'' ''1'' d = Inr ((), d1)"
    using assms(2) by (simp add: INSERT_METADATA_def d1_def row_def)
  with assms(1) have s1: "set_metadata d s ''x'' ''1'' = (Inr (), d1)"
    unfolding set_metadata_def by (rule safe_execute_ok)
  have "UPDATE_METADATA s ''x'' ''2'' d1 = Inr ((), d2)"
    by (simp add: UPDATE_METADATA_def d2_def upd_def)
  with h1 have s2: "update_metadata d1 s ''x'' ''2'' = (Inr (), d2)"
    unfolding update_metadata_def by (rule safe_execute_ok)
  have old: "map upd (metadata d) = metadata d"
    using assms(2) unfolding upd_def
    by (intro map_if_absent) (simp add: conj_commute)
  have "metadata d2 = metadata d @ [row\<lparr>md_value := ''2''\<rparr>]"
    by (simp add: d2_def d1_def old) (simp add: upd_def row_def)
  moreover have "find (\<lambda>r. md_service r = s \<and> md_name r = ''x'') (metadata d) = None"
    using assms(2) by (simp add: find_None_iff filter_empty_conv)
  ultimately have
    "find (\<lambda>r. md_service r = s \<and> md_name r = ''x'') (metadata d2) =
       Some (row\<lparr>md_value := ''2''\<rparr>)"
    by (simp add: find_app row_def)
  then have "get_metadata d2 s ''x'' = (Inr (Some ''2''), d2)"
    using get_metadata_healthy [OF h2, of s "''x''"] by simp
  with s1 s2 show ?thesis by blast
qed

theorem metadata_round_trip_witness:
  "\<exists>d1 d2. set_metadata fresh_store ''sync'' ''x'' ''1'' = (Inr (), d1) \<and>
           update_metadata d1 ''sync'' ''x'' ''2'' = (Inr (), d2) \<and>
           get_metadata d2 ''sync'' ''x'' = (Inr (Some ''2''), d2)"
  using metadata_round_trip [of fresh_store "''sync''"]
  by (simp add: fresh_store_def tos_row_def)

text \<open>
  Claim C6, as stated, fails: \<^verbatim>\<open>set_metadata\<close> on an existing \<open>(service, name)\<close> does
  fail, but what reaches the caller is the storage engine's own integrity error, which
  the \<^verbatim>\<open>except\<close> clause of \<^verbatim>\<open>_safe_execute\<close> does not name.
\<close>

theorem set_metadata_duplicate_counterexample:
  "set_metadata fresh_store ''sync'' ''terms-of-service'' ''https://tos.example/2'' =
     (Inl (Uncaught (IntegrityError ''metadata'')), fresh_store)"
  by (simp add: run_defs fresh_store_def tos_row_def)

text \<open>
  Claim C6, amended. With a healthy connection, \<^verbatim>\<open>set_metadata(service, name, value)\<close> on
  a store that already has a row for \<open>(service, name)\<close> raises the storage engine's
  integrity error, uncaught, and leaves the store as it was.
\<close>

theorem set_metadata_duplicate:
  assumes "faults d = []"
    and "filter (\<lambda>r. md_service r = service \<and> md_name r = name) (metadata d) \<noteq> []"
  shows "set_metadata d service name val = (Inl (Uncaught (IntegrityError ''metadata'')), d)"
proof -
  have "INSERT_METADATA service name val d = Inl (IntegrityError ''metadata'')"
    using assms(2) by (simp add: INSERT_METADATA_def)
  with assms(1) show ?thesis
    unfolding set_metadata_def by (rule safe_execute_integrity)
qed

theorem set_metadata_duplicate_witness:
  "set_metadata fresh_store ''sync'' ''terms-of-service'' ''v'' =
     (Inl (Uncaught (IntegrityError ''metadata'')), fresh_store)"
  using set_metadata_duplicate [of fresh_store "''sync''" "''terms-of-service''" "''v''"]
  by (simp add: fresh_store_def tos_row_def)

subsection \<open>Node selection\<close>

text \<open>
  Claim C4. Let the rows of \<^verbatim>\<open>nodes\<close> be identified by \<open>(service, node)\<close>, and let \<open>N\<close>, the
  row at index \<open>i\<close>, be a node of \<open>service\<close> with \<open>current_load = capacity\<close>. Then
  \<^verbatim>\<open>get_best_node(service)\<close> does not return the address of \<open>N\<close> and leaves the row at
  index \<open>i\<close> equal to \<open>N\<close>, whatever the connection does.
\<close>

theorem full_node_never_claimed:
  assumes ident: "distinct (map (\<lambda>r. (nd_service r, nd_node r)) (nodes d))"
    and i: "i < length (nodes d)" and N: "nodes d ! i = N"
    and svc: "nd_service N = service" and full: "current_load N = capacity N"
  shows "fst (get_best_node ratio d service) \<noteq> Inr (nd_node N) \<and>
         length (nodes (snd (get_best_node ratio d service))) = length (nodes d) \<and>
         nodes (snd (get_best_node ratio d service)) ! i = N"
proof -
  define da where "da = d\<lparr>faults := tl (faults d)\<rparr>"
  obtain res1 d1 where q: "safe_execute (best_node_query ratio service) d = (res1, d1)"
    by (cases "safe_execute (best_node_query ratio service) d")
  from q show ?thesis
  proof (cases rule: safe_execute_result)
    case (raised e)
    with q i N show ?thesis by (simp add: get_best_node_def)
  next
    case (returned rows)
    then have d1: "d1 = da"
      and rows: "rows = take 1 (sort_key (\<lambda>r. ratio (current_load r) (capacity r))
                          (filter (eligible service) (nodes d)))"
      by (auto simp: best_node_query_def da_def)
    have nodes_da: "nodes da = nodes d" by (simp add: da_def)
    show ?thesis
    proof (cases "fetchone rows")
      case None
      with q returned d1 nodes_da i N show ?thesis by (simp add: get_best_node_def)
    next
      case (Some one)
      then have one: "one \<in> set (nodes d)" "eligible service one"
        using fetchone_take_sort [of _ _ "nodes d" one] rows by auto
      have "one \<noteq> N"
        using one(2) full by (auto simp: eligible_def)
      moreover have "N \<in> set (nodes d)"
        using i N by auto
      moreover have "nd_service one = nd_service N"
        using one(2) svc by (simp add: eligible_def)
      ultimately have differ: "nd_node one \<noteq> nd_node N"
        using same_identity [OF ident one(1), of N] by blast
      obtain res2 d2 where u: "safe_execute (claim_update service (nd_node one)) da = (res2, d2)"
        by (cases "safe_execute (claim_update service (nd_node one)) da")
      from u show ?thesis
      proof (cases rule: safe_execute_result)
        case (raised e)
        with q returned(1) d1 Some u nodes_da i N show ?thesis
          by (simp add: get_best_node_def)
      next
        case (returned r)
        then have "nodes d2 = map (\<lambda>r. if nd_service r = service \<and> nd_node r = nd_node one
                                        then claim_row r else r) (nodes d)"
          by (auto simp: claim_update_def nodes_da)
        with q \<open>res1 = Inr rows\<close> returned(1) d1 Some u i N differ show ?thesis
          by (simp add: get_best_node_def)
      qed
    qed
  qed
qed

theorem full_node_never_claimed_witness:
  "fst (get_best_node sqlite_ratio
          (fresh_store\<lparr>nodes := [node_B\<lparr>current_load := 10\<rparr>, node_A]\<rparr>) ''sync'')
     \<noteq> Inr (nd_node (node_B\<lparr>current_load := 10\<rparr>)) \<and>
   nodes (snd (get_best_node sqlite_ratio
          (fresh_store\<lparr>nodes := [node_B\<lparr>current_load := 10\<rparr>, node_A]\<rparr>) ''sync'')) ! 0
     = node_B\<lparr>current_load := 10\<rparr>"
  using full_node_never_claimed
    [of "fresh_store\<lparr>nodes := [node_B\<lparr>current_load := 10\<rparr>, node_A]\<rparr>" 0
        "node_B\<lparr>current_load := 10\<rparr>" "''sync''" sqlite_ratio]
  by (simp add: fresh_store_def node_A_def node_B_def)

text \<open>
  Claim C1, as stated, fails: the update of \<^verbatim>\<open>get_best_node\<close> does not look at
  eligibility. Run on a node with one slot left it takes the slot; run again, on the row
  that is no longer eligible, it writes again.
\<close>

theorem claim_update_unconditional_counterexample:
  "nodes (snd (safe_execute (claim_update ''sync'' ''https://c.example'') last_slot_store)) =
     [last_slot\<lparr>available := 0, current_load := 10\<rparr>] \<and>
   \<not> eligible ''sync'' (last_slot\<lparr>available := 0, current_load := 10\<rparr>) \<and>
   nodes (snd (safe_execute (claim_update ''sync'' ''https://c.example'')
            (snd (safe_execute (claim_update ''sync'' ''https://c.example'') last_slot_store)))) =
     [last_slot\<lparr>available := - 1, current_load := 11\<rparr>]"
  by (simp add: run_defs last_slot_store_def last_slot_def)

text \<open>
  Claim C1, amended. The update of \<^verbatim>\<open>get_best_node\<close> is keyed by \<open>(service, node)\<close> alone:
  with a healthy connection it returns normally, keeps the number of rows, and takes one
  from \<open>available\<close> and adds one to \<open>current_load\<close> in every row with this service and node,
  whatever its \<open>available\<close>, \<open>current_load\<close>, \<open>capacity\<close> and \<open>downed\<close> are at that moment;
  every other row stays as it was. Eligibility is tested by the select before it only.
\<close>

theorem claim_update_keyed_by_node:
  assumes "faults d = []" and "i < length (nodes d)"
  shows "fst (safe_execute (claim_update service node) d) = Inr () \<and>
     length (nodes (snd (safe_execute (claim_update service node) d))) = length (nodes d) \<and>
     nodes (snd (safe_execute (claim_update service node) d)) ! i =
       (if nd_service (nodes d ! i) = service \<and> nd_node (nodes d ! i) = node
        then (nodes d ! i)\<lparr>available := available (nodes d ! i) - 1,
                             current_load := current_load (nodes d ! i) + 1\<rparr>
        else nodes d ! i)"
proof -
  have "safe_execute (claim_update service node) d =
    (Inr (), d\<lparr>nodes := map (\<lambda>r. if nd_service r = service \<and> nd_node r = node
                                   then claim_row r else r) (nodes d)\<rparr>)"
    using assms(1) by (intro safe_execute_ok) (simp_all add: claim_update_def)
  with assms(2) show ?thesis
    by (simp add: claim_row_def)
qed

theorem claim_update_keyed_by_node_witness:
  "\<not> eligible ''sync'' (node_B\<lparr>available := 0, downed := 1\<rparr>) \<and>
   nodes (snd (safe_execute (claim_update ''sync'' ''https://b.example'')
                 (fresh_store\<lparr>nodes := [node_B\<lparr>available := 0, downed := 1\<rparr>]\<rparr>))) ! 0 =
     node_B\<lparr>available := - 1, current_load := 9, downed := 1\<rparr>"
  using claim_update_keyed_by_node
    [of "fresh_store\<lparr>nodes := [node_B\<lparr>available := 0, downed := 1\<rparr>]\<rparr>" 0
        "''sync''" "''https://b.example''"]
  by (simp add: fresh_store_def node_B_def eligible_def)

text \<open>
  Claim C5 on SQLite. In \<open>fresh_store\<close> the eligible nodes of \<^verbatim>\<open>sync\<close> are \<open>node_B\<close> (load 8
  of 10), stored first, and \<open>node_A\<close> (load 2 of 10). The integer quotient is 0 for both,
  so the order by \<^verbatim>\<open>current_load / capacity\<close> does not tell them apart, and
  \<^verbatim>\<open>allocate_node("u@x", "sync")\<close> returns the address of \<open>node_B\<close>, takes the slot there
  (load 9) and leaves \<open>node_A\<close> at load 2.
\<close>

theorem busier_node_selected:
  "filter (eligible ''sync'') (nodes fresh_store) = [node_B, node_A] \<and>
   current_load node_A = 2 \<and> capacity node_A = 10 \<and>
   current_load node_B = 8 \<and> capacity node_B = 10 \<and>
   sqlite_ratio (current_load node_A) (capacity node_A) = Some 0 \<and>
   sqlite_ratio (current_load node_B) (capacity node_B) = Some 0 \<and>
   allocate_node sqlite_ratio fresh_store ''u@x'' ''sync'' =
     (Inr (1, nd_node node_B),
      fresh_store
        \<lparr>nodes := [node_B\<lparr>available := available node_B - 1, current_load := 9\<rparr>, node_A],
         user_nodes := [\<lparr>un_uid = 1, un_service = ''sync'', un_email = ''u@x'',
                          un_node = nd_node node_B, tos_signed = 1\<rparr>],
         next_uid := 2\<rparr>)"
  by (simp add: run_defs fresh_store_def node_A_def node_B_def tos_row_def
      sqlite_ratio_def signed_divide_int_def)

subsection \<open>Errors\<close>

text \<open>
  Claim C10. No eligible node, an already assigned \<open>(email, service)\<close>, and a connection
  failure or timeout of the store all surface as \<^verbatim>\<open>BackendError\<close>, told apart only by the
  message: \<^verbatim>\<open>'unable to get a node'\<close>, \<^verbatim>\<open>'Node already assigned'\<close>, and the text of the
  storage exception.
\<close>

theorem failures_share_BackendError:
  "(faults d = [] \<and> filter (eligible service) (nodes d) = [] \<longrightarrow>
      get_best_node ratio d service = (Inl (BackendError ''unable to get a node''), d)) \<and>
   (faults d = [] \<and>
      filter (\<lambda>r. un_email r = email \<and> un_service r = service) (user_nodes d) \<noteq> [] \<longrightarrow>
      allocate_node ratio d email service =
        (Inl (BackendError ''Node already assigned''), d)) \<and>
   (faults d = Some e # rest \<and> (e = OperationalError m \<or> e = TimeoutError m) \<longrightarrow>
      safe_execute stmt d = (Inl (BackendError m), d\<lparr>faults := rest\<rparr>) \<and>
      get_best_node ratio d service = (Inl (BackendError m), d\<lparr>faults := rest\<rparr>) \<and>
      allocate_node ratio d email service = (Inl (BackendError m), d\<lparr>faults := rest\<rparr>))"
proof (intro conjI impI)
  assume "faults d = [] \<and> filter (eligible service) (nodes d) = []"
  then show "get_best_node ratio d service = (Inl (BackendError ''unable to get a node''), d)"
    by (simp add: get_best_node_none)
next
  assume "faults d = [] \<and>
      filter (\<lambda>r. un_email r = email \<and> un_service r = service) (user_nodes d) \<noteq> []"
  then show "allocate_node ratio d email service =
        (Inl (BackendError ''Node already assigned''), d)"
    by (simp add: allocate_node_assigned)
next
  assume a: "faults d = Some e # rest \<and> (e = OperationalError m \<or> e = TimeoutError m)"
  then have cf: "safe_execute q d = (Inl (BackendError m), d\<lparr>faults := rest\<rparr>)" for q :: "db \<Rightarrow> storage_exc + 'x \<times> db"
    using connection_failure [of d e rest m q] by blast
  show "safe_execute stmt d = (Inl (BackendError m), d\<lparr>faults := rest\<rparr>)"
    by (rule cf)
  show "get_best_node ratio d service = (Inl (BackendError m), d\<lparr>faults := rest\<rparr>)"
    by (simp add: get_best_node_def cf)
  show "allocate_node ratio d email service = (Inl (BackendError m), d\<lparr>faults := rest\<rparr>)"
    by (simp add: allocate_node_def get_node_def cf)
qed

theorem failures_share_BackendError_witness:
  "get_best_node sqlite_ratio fresh_store ''mail'' =
     (Inl (BackendError ''unable to get a node''), fresh_store) \<and>
   allocate_node sqlite_ratio signed_store ''u@x'' ''sync'' =
     (Inl (BackendError ''Node already assigned''), signed_store) \<and>
   allocate_node sqlite_ratio flaky_store ''u@x'' ''sync'' =
     (Inl (BackendError ''timed out''), fresh_store)"
  using failures_share_BackendError
      [where d = fresh_store and service = "''mail''" and ratio = sqlite_ratio]
    failures_share_BackendError
      [where d = signed_store and email = "''u@x''" and service = "''sync''"
         and ratio = sqlite_ratio]
    failures_share_BackendError
      [where d = flaky_store and e = "TimeoutError ''timed out''" and rest = "[]"
         and m = "''timed out''" and email = "''u@x''" and service = "''sync''"
         and ratio = sqlite_ratio and stmt = "GET ''u@x'' ''sync''"]
  by (simp add: fresh_store_def signed_store_def flaky_store_def node_A_def node_B_def
      signed_user_def flagged_user_def eligible_def)

subsection \<open>Terms of service\<close>

text \<open>
  Claim C2 at a concrete store. The user \<^verbatim>\<open>u@x\<close> of \<^verbatim>\<open>sync\<close> has flag 0, which
  \<^verbatim>\<open>get_node\<close> reads as signed (no URL); the user \<^verbatim>\<open>v@x\<close> has flag 1. \<^verbatim>\<open>set_tos\<close> stores
  the new URL and sets the flag of both to 0, so afterwards \<^verbatim>\<open>get_node\<close> returns no URL
  for either of them.
\<close>

theorem set_tos_keeps_signed:
  "fst (get_node signed_store ''u@x'' ''sync'') =
     Inr (Some 7, Some ''https://a.example'', None) \<and>
   fst (set_tos signed_store ''sync'' ''https://tos.example/2'') = Inr () \<and>
   fst (get_metadata (snd (set_tos signed_store ''sync'' ''https://tos.example/2''))
          ''sync'' ''terms-of-service'') = Inr (Some ''https://tos.example/2'') \<and>
   fst (get_node (snd (set_tos signed_store ''sync'' ''https://tos.example/2''))
          ''u@x'' ''sync'') = Inr (Some 7, Some ''https://a.example'', None) \<and>
   fst (get_node (snd (set_tos signed_store ''sync'' ''https://tos.example/2''))
          ''v@x'' ''sync'') = Inr (Some 8, Some ''https://b.example'', None)"
  by (simp add: run_defs signed_store_def signed_user_def flagged_user_def tos_row_def)

subsection \<open>Assignments\<close>

text \<open>
  Claim C3. After \<^verbatim>\<open>allocate_node(email, service)\<close> has returned \<open>(uid, node)\<close>, and with
  the connection healthy from then on, a second \<^verbatim>\<open>allocate_node(email, service)\<close> raises
  \<^verbatim>\<open>BackendError('Node already assigned')\<close> and leaves the store as it was; the store has
  exactly one row for \<open>(email, service)\<close>, with this uid and node, and \<^verbatim>\<open>get_node\<close>
  returns them.
\<close>

theorem allocate_node_twice:
  assumes "allocate_node ratio d email service = (Inr (uid, node), d1)"
    and "faults d1 = []"
  shows "allocate_node ratio d1 email service =
           (Inl (BackendError ''Node already assigned''), d1) \<and>
         filter (\<lambda>r. un_email r = email \<and> un_service r = service) (user_nodes d1) =
           [\<lparr>un_uid = uid, un_service = service, un_email = email,
             un_node = node, tos_signed = 1\<rparr>] \<and>
         (\<exists>tos. get_node d1 email service = (Inr (Some uid, Some node, tos), d1))"
proof -
  from allocate_node_success [OF assms(1)] obtain d0
    where "safe_execute (INSERT service email node 1) d0 = (Inr uid, d1)" ..
  then have row: "filter (\<lambda>r. un_email r = email \<and> un_service r = service) (user_nodes d1) =
           [\<lparr>un_uid = uid, un_service = service, un_email = email,
             un_node = node, tos_signed = 1\<rparr>]"
    by (rule insert_success)
  then have "allocate_node ratio d1 email service =
           (Inl (BackendError ''Node already assigned''), d1)"
    using assms(2) by (intro allocate_node_assigned) simp_all
  moreover have "\<exists>tos. get_node d1 email service = (Inr (Some uid, Some node, tos), d1)"
    using get_node_present [OF assms(2) row] by simp
  ultimately show ?thesis using row by blast
qed

theorem allocate_node_twice_witness:
  "allocate_node sqlite_ratio allocated_store ''u@x'' ''sync'' =
     (Inl (BackendError ''Node already assigned''), allocated_store) \<and>
   filter (\<lambda>r. un_email r = ''u@x'' \<and> un_service r = ''sync'') (user_nodes allocated_store) =
     [\<lparr>un_uid = 1, un_service = ''sync'', un_email = ''u@x'',
       un_node = ''https://b.example'', tos_signed = 1\<rparr>] \<and>
   (\<exists>tos. get_node allocated_store ''u@x'' ''sync'' =
      (Inr (Some 1, Some ''https://b.example'', tos), allocated_store))"
proof -
  have "faults allocated_store = []"
    by (simp add: allocated_store_def)
  with fresh_store_allocation show ?thesis
    by (rule allocate_node_twice)
qed

text \<open>
  Claim C9. With a healthy connection, no row for \<open>(email, service)\<close> and an eligible
  node of the service, \<^verbatim>\<open>allocate_node(email, service)\<close> returns the new uid and a node
  and stores the row with flag 1. \<^verbatim>\<open>get_node(email, service)\<close> then returns this uid and
  node together with the value stored in the metadata under \<^verbatim>\<open>terms-of-service\<close> for the
  service (\<^verbatim>\<open>None\<close> when nothing is stored). Once \<^verbatim>\<open>set_tos_flag\<close> has given this user
  a flag \<open>v\<close> other than 1, \<^verbatim>\<open>get_node\<close> returns the same uid and node with no URL: flag 1
  is read as not signed, any other flag as signed.
\<close>

theorem fresh_allocation_unsigned:
  assumes "faults d = []"
    and "filter (\<lambda>r. un_email r = email \<and> un_service r = service) (user_nodes d) = []"
    and "filter (eligible service) (nodes d) \<noteq> []"
    and "v \<noteq> 1"
  shows "\<exists>node d1.
           allocate_node ratio d email service = (Inr (next_uid d, node), d1) \<and>
           filter (\<lambda>r. un_email r = email \<and> un_service r = service) (user_nodes d1) =
             [\<lparr>un_uid = next_uid d, un_service = service, un_email = email,
               un_node = node, tos_signed = 1\<rparr>] \<and>
           metadata d1 = metadata d \<and>
           get_node d1 email service =
             (Inr (Some (next_uid d), Some node,
                   map_option md_value
                     (find (\<lambda>r. md_service r = service \<and> md_name r = ''terms-of-service'')
                        (metadata d))), d1) \<and>
           fst (get_node (snd (set_tos_flag d1 service v (Some email))) email service) =
             Inr (Some (next_uid d), Some node, None)"
proof -
  have "sort_key (\<lambda>r. ratio (current_load r) (capacity r))
          (filter (eligible service) (nodes d)) \<noteq> []"
    using assms(3) by (metis length_sort length_0_conv)
  then obtain one where
    "take 1 (sort_key (\<lambda>r. ratio (current_load r) (capacity r))
               (filter (eligible service) (nodes d))) = [one]"
    using take1_nonempty by blast
  from allocate_node_healthy [OF assms(1,2) this]
  obtain d1 where a: "allocate_node ratio d email service = (Inr (next_uid d, nd_node one), d1)"
    and d1: "faults d1 = []"
       "user_nodes d1 = user_nodes d @
         [\<lparr>un_uid = next_uid d, un_service = service, un_email = email,
           un_node = nd_node one, tos_signed = 1\<rparr>]"
       "metadata d1 = metadata d"
    using assms(1) by simp
  let ?u = "\<lparr>un_uid = next_uid d, un_service = service, un_email = email,
             un_node = nd_node one, tos_signed = 1\<rparr>"
  have row: "filter (\<lambda>r. un_email r = email \<and> un_service r = service) (user_nodes d1) = [?u]"
    using assms(2) by (simp add: d1(2))
  have g1: "get_node d1 email service =
             (Inr (Some (next_uid d), Some (nd_node one),
                   map_option md_value
                     (find (\<lambda>r. md_service r = service \<and> md_name r = ''terms-of-service'')
                        (metadata d))), d1)"
    using get_node_present [OF d1(1) row] by (simp add: d1(3))
  from set_tos_flag_row [OF d1(1) row, of v] obtain d2
    where s: "set_tos_flag d1 service v (Some email) = (Inr (), d2)"
      and d2: "faults d2 = []"
      and row2: "filter (\<lambda>r. un_email r = email \<and> un_service r = service) (user_nodes d2) =
                   [?u\<lparr>tos_signed := v\<rparr>]"
    by blast
  have "get_node d2 email service = (Inr (Some (next_uid d), Some (nd_node one), None), d2)"
    using get_node_present [OF d2 row2] assms(4) by simp
  then have g2: "fst (get_node (snd (set_tos_flag d1 service v (Some email))) email service) =
             Inr (Some (next_uid d), Some (nd_node one), None)"
    by (simp add: s)
  from a row d1(3) g1 g2 show ?thesis by blast
qed

theorem fresh_allocation_unsigned_witness:
  "allocate_node sqlite_ratio fresh_store ''u@x'' ''sync'' =
     (Inr (1, ''https://b.example''), allocated_store) \<and>
   get_node allocated_store ''u@x'' ''sync'' =
     (Inr (Some 1, Some ''https://b.example'', Some ''https://tos.example/1''),
      allocated_store) \<and>
   fst (get_node (snd (set_tos_flag allocated_store ''sync'' 0 (Some ''u@x'')))
          ''u@x'' ''sync'') = Inr (Some 1, Some ''https://b.example'', None)"
proof -
  have "faults fresh_store = []"
    and "filter (\<lambda>r. un_email r = ''u@x'' \<and> un_service r = ''sync'') (user_nodes fresh_store) = []"
    and "filter (eligible ''sync'') (nodes fresh_store) \<noteq> []"
    and "(0::int) \<noteq> 1"
    by (simp_all add: fresh_store_def node_A_def node_B_def eligible_def)
  from fresh_allocation_unsigned [OF this, of sqlite_ratio]
  obtain node d1 where
    a: "allocate_node sqlite_ratio fresh_store ''u@x'' ''sync'' =
          (Inr (next_uid fresh_store, node), d1)"
    and g: "get_node d1 ''u@x'' ''sync'' =
             (Inr (Some (next_uid fresh_store), Some node,
                   map_option md_value
                     (find (\<lambda>r. md_service r = ''sync'' \<and> md_name r = ''terms-of-service'')
                        (metadata fresh_store))), d1)"
    and f: "fst (get_node (snd (set_tos_flag d1 ''sync'' 0 (Some ''u@x''))) ''u@x'' ''sync'') =
             Inr (Some (next_uid fresh_store), Some node, None)"
    by blast
  from a fresh_store_allocation have "node = ''https://b.example''" and "d1 = allocated_store"
    by simp_all
  with a g f show ?thesis
    by (simp add: fresh_store_def tos_row_def)
qed

end
